theory Spec2Isabelle
  imports Complex_Main
begin

section \<open>Data contracts (app/models.py)\<close>

text \<open>
  The pydantic models of \<^verbatim>\<open>app/models.py\<close> as records. A Python \<^verbatim>\<open>Optional[t]\<close> field
  is a \<open>t option\<close>. The temperature is a Python float; only its comparison with the
  bounds \<^verbatim>\<open>0.0\<close> and \<^verbatim>\<open>2.0\<close> is used, so a finite float is read as the real number
  it denotes.
\<close>

record ChatMessage =
  role :: string
  content :: string

record InferenceRequest =
  messages :: "ChatMessage list"
  max_tokens :: "int option"
  temperature :: "real option"
  stream :: "bool option"

record InferenceResponse =
  ir_id :: string
  ir_model :: string
  ir_content :: string
  ir_finish_reason :: string
  ir_usage :: "(string \<times> int) list"

text \<open>
  A field of the JSON body before validation: absent, \<^verbatim>\<open>null\<close>, or a value of the
  declared type.
\<close>

datatype 'a field = Absent | Null | Val 'a

record RequestBody =
  body_messages :: "ChatMessage list field"
  body_max_tokens :: "int field"
  body_temperature :: "real field"
  body_stream :: "bool field"

datatype ValidationError =
  Missing string
  | ListType string
  | GreaterThanEqual string
  | LessThanEqual string

text \<open>\<^verbatim>\<open>messages: List[ChatMessage] = Field(...)\<close>: required, any list, no length bound.\<close>

fun validate_messages :: "ChatMessage list field \<Rightarrow> ValidationError + ChatMessage list" where
  "validate_messages Absent = Inl (Missing ''messages'')"
| "validate_messages Null = Inl (ListType ''messages'')"
| "validate_messages (Val ms) = Inr ms"

text \<open>\<^verbatim>\<open>max_tokens: Optional[int] = Field(500)\<close>.\<close>

fun validate_max_tokens :: "int field \<Rightarrow> int option" where
  "validate_max_tokens Absent = Some 500"
| "validate_max_tokens Null = None"
| "validate_max_tokens (Val n) = Some n"

text \<open>\<^verbatim>\<open>temperature: Optional[float] = Field(0.7, ge=0.0, le=2.0)\<close>.\<close>

fun validate_temperature :: "real field \<Rightarrow> ValidationError + real option" where
  "validate_temperature Absent = Inr (Some (7 / 10))"
| "validate_temperature Null = Inr None"
| "validate_temperature (Val t) =
     (if t < 0 then Inl (GreaterThanEqual ''temperature'')
      else if 2 < t then Inl (LessThanEqual ''temperature'')
      else Inr (Some t))"

text \<open>\<^verbatim>\<open>stream: Optional[bool] = Field(False)\<close>.\<close>

fun validate_stream :: "bool field \<Rightarrow> bool option" where
  "validate_stream Absent = Some False"
| "validate_stream Null = None"
| "validate_stream (Val b) = Some b"

text \<open>Validation of the whole body: every failing field is reported.\<close>

definition validate_InferenceRequest :: "RequestBody \<Rightarrow> ValidationError list + InferenceRequest" where
  "validate_InferenceRequest b =
     (case (validate_messages (body_messages b), validate_temperature (body_temperature b)) of
        (Inr ms, Inr t) \<Rightarrow>
          Inr \<lparr>messages = ms, max_tokens = validate_max_tokens (body_max_tokens b),
               temperature = t, stream = validate_stream (body_stream b)\<rparr>
      | (Inl e, Inr t) \<Rightarrow> Inl [e]
      | (Inr ms, Inl e) \<Rightarrow> Inl [e]
      | (Inl e1, Inl e2) \<Rightarrow> Inl [e1, e2])"

text \<open>\<^verbatim>\<open>msg.model_dump()\<close>: the message as a dict, in field order.\<close>

definition model_dump :: "ChatMessage \<Rightarrow> (string \<times> string) list" where
  "model_dump msg = [(''role'', role msg), (''content'', content msg)]"

text \<open>Python truthiness of an \<^verbatim>\<open>Optional[bool]\<close>.\<close>

fun truthy_bool :: "bool option \<Rightarrow> bool" where
  "truthy_bool None = False"
| "truthy_bool (Some b) = b"

section \<open>Configuration (app/config.py)\<close>

record Settings =
  OPENAI_MODEL :: string

section \<open>The upstream client\<close>

text \<open>
  The OpenAI client is an external collaborator. What the code reads from its results
  is kept: the completion's \<^verbatim>\<open>choices\<close> list, which the blocking path indexes at 0 and
  the streaming path tests for emptiness, and the fields it copies. The content of a
  message and the usage block of a completion may be \<^verbatim>\<open>None\<close>. A call either
  raises or returns; the exception classes are the three the handlers tell apart, in
  the order of the \<^verbatim>\<open>except\<close> clauses (\<^verbatim>\<open>RateLimitError\<close> is a subclass of
  \<^verbatim>\<open>APIError\<close>, so \<open>APIError\<close> below stands for every other \<^verbatim>\<open>APIError\<close>). Each carries
  the text \<^verbatim>\<open>str(e)\<close>.
\<close>

datatype py_exception =
  RateLimitError string
  | APIError string
  | OtherException string

fun str :: "py_exception \<Rightarrow> string" where
  "str (RateLimitError m) = m"
| "str (APIError m) = m"
| "str (OtherException m) = m"

record CompletionUsage =
  prompt_tokens :: int
  completion_tokens :: int
  usage_total_tokens :: int

record Choice =
  message_content :: "string option"
  finish_reason :: string

record ChatCompletion =
  cc_id :: string
  cc_model :: string
  choices :: "Choice list"
  usage :: "CompletionUsage option"

record ChunkChoice =
  delta_content :: "string option"

record ChatCompletionChunk =
  chunk_choices :: "ChunkChoice list"

text \<open>The keyword arguments of \<^verbatim>\<open>client.chat.completions.create\<close>.\<close>

record create_args =
  arg_model :: string
  arg_messages :: "(string \<times> string) list list"
  arg_max_tokens :: "int option"
  arg_temperature :: "real option"
  arg_stream :: bool

text \<open>
  The blocking call returns a completion or raises. The streaming call returns a
  stream or raises; a stream delivers finitely many chunks and then ends naturally
  (\<open>None\<close>) or raises during iteration (\<open>Some e\<close>).
\<close>

type_synonym upstream_complete = "create_args \<Rightarrow> py_exception + ChatCompletion"

type_synonym chunk_stream = "ChatCompletionChunk list \<times> py_exception option"

type_synonym upstream_streaming = "create_args \<Rightarrow> py_exception + chunk_stream"

section \<open>Process state (app/main.py)\<close>

text \<open>
  The \<^verbatim>\<open>metrics\<close> dict has four fixed keys holding Python integers. The state also
  records every call made to the upstream client, in order, so that "the upstream is
  not contacted" is a statement about the state.
\<close>

record Metrics =
  total_requests :: int
  successful_requests :: int
  failed_requests :: int
  total_tokens :: int

record world =
  metrics :: Metrics
  upstream_calls :: "create_args list"

definition inc_total :: "world \<Rightarrow> world" where
  "inc_total w = w\<lparr>metrics := (metrics w)\<lparr>total_requests := total_requests (metrics w) + 1\<rparr>\<rparr>"

definition inc_successful :: "world \<Rightarrow> world" where
  "inc_successful w =
     w\<lparr>metrics := (metrics w)\<lparr>successful_requests := successful_requests (metrics w) + 1\<rparr>\<rparr>"

definition inc_failed :: "world \<Rightarrow> world" where
  "inc_failed w = w\<lparr>metrics := (metrics w)\<lparr>failed_requests := failed_requests (metrics w) + 1\<rparr>\<rparr>"

definition add_tokens :: "int \<Rightarrow> world \<Rightarrow> world" where
  "add_tokens n w = w\<lparr>metrics := (metrics w)\<lparr>total_tokens := total_tokens (metrics w) + n\<rparr>\<rparr>"

definition record_call :: "create_args \<Rightarrow> world \<Rightarrow> world" where
  "record_call args w = w\<lparr>upstream_calls := upstream_calls w @ [args]\<rparr>"

text \<open>
  What a route can answer instead of its normal result: an \<^verbatim>\<open>HTTPException\<close> raised by
  the handler, the limiter's \<^verbatim>\<open>RateLimitExceeded\<close>, or the framework's rejection of a
  body that fails validation.
\<close>

datatype http_error =
  HTTPException nat string
  | RateLimitExceeded
  | RequestValidationError "ValidationError list"

text \<open>
  The status each is answered with. \<^verbatim>\<open>RateLimitExceeded\<close> goes to the registered
  \<^verbatim>\<open>_rate_limit_exceeded_handler\<close>, which answers "too many requests"; a body that
  fails validation is answered "unprocessable entity".
\<close>

fun status_code :: "http_error \<Rightarrow> nat" where
  "status_code (HTTPException c d) = c"
| "status_code RateLimitExceeded = 429"
| "status_code (RequestValidationError es) = 422"

section \<open>The blocking endpoint\<close>

definition blocking_args :: "Settings \<Rightarrow> InferenceRequest \<Rightarrow> create_args" where
  "blocking_args cfg inference_request =
     \<lparr>arg_model = OPENAI_MODEL cfg,
      arg_messages = map model_dump (messages inference_request),
      arg_max_tokens = max_tokens inference_request,
      arg_temperature = temperature inference_request,
      arg_stream = False\<rparr>"

text \<open>
  The \<^verbatim>\<open>try\<close> block of \<^verbatim>\<open>generate_inference\<close>, statement by statement: the upstream
  call; \<^verbatim>\<open>response.choices[0]\<close>, an \<^verbatim>\<open>IndexError\<close> on an empty list; the bump of
  \<^verbatim>\<open>successful_requests\<close>; \<^verbatim>\<open>response.usage.total_tokens\<close>, an \<^verbatim>\<open>AttributeError\<close> when
  the usage is \<^verbatim>\<open>None\<close>, added to \<^verbatim>\<open>total_tokens\<close>; and last the construction of the
  \<^verbatim>\<open>InferenceResponse\<close>, whose field \<^verbatim>\<open>content: str\<close> refuses \<^verbatim>\<open>None\<close> with a
  \<^verbatim>\<open>ValidationError\<close>. An exception leaves the block with the counters as they are at
  that statement.
\<close>

definition generate_inference_try ::
  "Settings \<Rightarrow> upstream_complete \<Rightarrow> world \<Rightarrow> InferenceRequest \<Rightarrow> world \<times> (py_exception + InferenceResponse)" where
  "generate_inference_try cfg create w inference_request =
     (let args = blocking_args cfg inference_request;
          w1 = record_call args w
      in case create args of
           Inl e \<Rightarrow> (w1, Inl e)
         | Inr response \<Rightarrow>
             (case choices response of
                [] \<Rightarrow> (w1, Inl (OtherException ''list index out of range''))
              | completion # rest \<Rightarrow>
                  (let w2 = inc_successful w1
                   in case usage response of
                        None \<Rightarrow>
                          (w2, Inl (OtherException ''NoneType object has no attribute total_tokens''))
                      | Some u \<Rightarrow>
                          (let w3 = add_tokens (usage_total_tokens u) w2
                           in case message_content completion of
                                None \<Rightarrow>
                                  (w3, Inl (OtherException ''1 validation error for InferenceResponse''))
                              | Some text \<Rightarrow>
                                  (w3,
                                   Inr \<lparr>ir_id = cc_id response,
                                        ir_model = cc_model response,
                                        ir_content = text,
                                        ir_finish_reason = finish_reason completion,
                                        ir_usage =
                                          [(''prompt_tokens'', prompt_tokens u),
                                           (''completion_tokens'', completion_tokens u),
                                           (''total_tokens'', usage_total_tokens u)]\<rparr>)))))"

text \<open>
  The three \<^verbatim>\<open>except\<close> clauses of \<^verbatim>\<open>generate_inference\<close>, in source order: the
  \<^verbatim>\<open>HTTPException\<close> each raises. Only the second one uses \<^verbatim>\<open>str(e)\<close>.
\<close>

fun generate_inference_except :: "py_exception \<Rightarrow> http_error" where
  "generate_inference_except (RateLimitError m) = HTTPException 429 ''Rate limit exceeded at OpenAI''"
| "generate_inference_except (APIError m) =
     HTTPException 502 (''LLM service error: '' @ str (APIError m))"
| "generate_inference_except (OtherException m) = HTTPException 500 ''Internal server error''"

text \<open>The body of \<^verbatim>\<open>generate_inference\<close>.\<close>

definition generate_inference ::
  "Settings \<Rightarrow> upstream_complete \<Rightarrow> world \<Rightarrow> InferenceRequest \<Rightarrow> world \<times> (http_error + InferenceResponse)" where
  "generate_inference cfg create w inference_request =
     (let w1 = inc_total w
      in if truthy_bool (stream inference_request)
         then (w1, Inl (HTTPException 400 ''For streaming responses, use POST /v1/inference/stream''))
         else (case generate_inference_try cfg create w1 inference_request of
                 (w2, Inr r) \<Rightarrow> (w2, Inr r)
               | (w2, Inl e) \<Rightarrow> (inc_failed w2, Inl (generate_inference_except e))))"

section \<open>The streaming relay\<close>

definition streaming_args :: "Settings \<Rightarrow> InferenceRequest \<Rightarrow> create_args" where
  "streaming_args cfg inference_request =
     \<lparr>arg_model = OPENAI_MODEL cfg,
      arg_messages = map model_dump (messages inference_request),
      arg_max_tokens = max_tokens inference_request,
      arg_temperature = temperature inference_request,
      arg_stream = True\<rparr>"

text \<open>
  The \<^verbatim>\<open>for chunk in stream\<close> loop over the chunks that arrive: the events it yields,
  in order. \<^verbatim>\<open>if delta.content:\<close> holds for a string that is neither \<^verbatim>\<open>None\<close> nor
  empty; the event is \<^verbatim>\<open>f"data: {delta.content}\n\n"\<close>.
\<close>

fun relay_chunks :: "ChatCompletionChunk list \<Rightarrow> string list" where
  "relay_chunks [] = []"
| "relay_chunks (chunk # rest) =
     (case chunk_choices chunk of
        [] \<Rightarrow> relay_chunks rest
      | c # cs \<Rightarrow>
          (case delta_content c of
             None \<Rightarrow> relay_chunks rest
           | Some text \<Rightarrow>
               (if text \<noteq> []
                then (''data: '' @ text @ ''\<newline>\<newline>'') # relay_chunks rest
                else relay_chunks rest)))"

text \<open>The event each \<^verbatim>\<open>except\<close> clause of \<^verbatim>\<open>stream_openai_response\<close> yields.\<close>

fun stream_except :: "py_exception \<Rightarrow> string" where
  "stream_except (RateLimitError m) = ''data: [ERROR] Rate limit exceeded\<newline>\<newline>''"
| "stream_except (APIError m) =
     ''data: [ERROR] LLM service error: '' @ str (APIError m) @ ''\<newline>\<newline>''"
| "stream_except (OtherException m) = ''data: [ERROR] Internal server error\<newline>\<newline>''"

text \<open>
  The \<^verbatim>\<open>try\<close> block of the generator \<^verbatim>\<open>stream_openai_response\<close>, run until it ends or
  raises: the events yielded so far, the state, and the exception that leaves the
  block, if any. The success counter is bumped after the end marker is yielded.
\<close>

definition stream_openai_response_try ::
  "Settings \<Rightarrow> upstream_streaming \<Rightarrow> world \<Rightarrow> InferenceRequest \<Rightarrow>
   string list \<times> world \<times> py_exception option" where
  "stream_openai_response_try cfg create w inference_request =
     (let args = streaming_args cfg inference_request;
          w1 = record_call args w
      in case create args of
           Inl e \<Rightarrow> ([], w1, Some e)
         | Inr (chunks, Some e) \<Rightarrow> (relay_chunks chunks, w1, Some e)
         | Inr (chunks, None) \<Rightarrow>
             (relay_chunks chunks @ [''data: [DONE]\<newline>\<newline>''], inc_successful w1, None))"

text \<open>How a generator ends: it returns, or an exception leaves it.\<close>

datatype generator_exit = Returned | Raised py_exception

text \<open>
  The generator \<^verbatim>\<open>stream_openai_response\<close>, drained by its consumer: the events it
  yields in order, the state it leaves, and how it ends. Each \<^verbatim>\<open>except\<close> clause bumps
  the failure counter, yields one event and falls off the end of the function.
\<close>

definition stream_openai_response ::
  "Settings \<Rightarrow> upstream_streaming \<Rightarrow> world \<Rightarrow> InferenceRequest \<Rightarrow>
   string list \<times> world \<times> generator_exit" where
  "stream_openai_response cfg create w inference_request =
     (case stream_openai_response_try cfg create w inference_request of
        (events, w1, None) \<Rightarrow> (events, w1, Returned)
      | (events, w1, Some e) \<Rightarrow> (events @ [stream_except e], inc_failed w1, Returned))"

record StreamingResponse =
  body_iterator :: "string list"
  media_type :: string
  headers :: "(string \<times> string) list"

text \<open>The body of \<^verbatim>\<open>generate_inference_stream\<close>.\<close>

definition generate_inference_stream ::
  "Settings \<Rightarrow> upstream_streaming \<Rightarrow> world \<Rightarrow> InferenceRequest \<Rightarrow> world \<times> (http_error + StreamingResponse)" where
  "generate_inference_stream cfg create w inference_request =
     (let w1 = inc_total w;
          (events, w2, exit) = stream_openai_response cfg create w1 inference_request
      in (w2, Inr \<lparr>body_iterator = events,
                   media_type = ''text/event-stream'',
                   headers = [(''Cache-Control'', ''no-cache''), (''Connection'', ''keep-alive'')]\<rparr>))"

section \<open>The decorators: rate limiting and body validation\<close>

text \<open>
  \<^verbatim>\<open>@limiter.limit(settings.RATE_LIMIT)\<close> wraps the handler: the limiter decides
  first, and a rejected request raises \<^verbatim>\<open>RateLimitExceeded\<close> without running the
  handler's body. The limiter's decision for the request is the parameter \<open>admit\<close>.
\<close>

definition limiter_limit ::
  "bool \<Rightarrow> (world \<Rightarrow> InferenceRequest \<Rightarrow> world \<times> (http_error + 'a)) \<Rightarrow>
   world \<Rightarrow> InferenceRequest \<Rightarrow> world \<times> (http_error + 'a)" where
  "limiter_limit admit handler w inference_request =
     (if admit then handler w inference_request else (w, Inl RateLimitExceeded))"

text \<open>
  \<^verbatim>\<open>@app.post(...)\<close> with a body parameter of type \<^verbatim>\<open>InferenceRequest\<close>: the body is
  validated against the model before the wrapped function is called.
\<close>

definition app_post ::
  "(world \<Rightarrow> InferenceRequest \<Rightarrow> world \<times> (http_error + 'a)) \<Rightarrow>
   world \<Rightarrow> RequestBody \<Rightarrow> world \<times> (http_error + 'a)" where
  "app_post endpoint w b =
     (case validate_InferenceRequest b of
        Inl errors \<Rightarrow> (w, Inl (RequestValidationError errors))
      | Inr inference_request \<Rightarrow> endpoint w inference_request)"

text \<open>\<^verbatim>\<open>POST /v1/inference\<close> and \<^verbatim>\<open>POST /v1/inference/stream\<close> as decorated.\<close>

definition post_v1_inference ::
  "Settings \<Rightarrow> upstream_complete \<Rightarrow> bool \<Rightarrow> world \<Rightarrow> RequestBody \<Rightarrow> world \<times> (http_error + InferenceResponse)" where
  "post_v1_inference cfg create admit = app_post (limiter_limit admit (generate_inference cfg create))"

definition post_v1_inference_stream ::
  "Settings \<Rightarrow> upstream_streaming \<Rightarrow> bool \<Rightarrow> world \<Rightarrow> RequestBody \<Rightarrow> world \<times> (http_error + StreamingResponse)" where
  "post_v1_inference_stream cfg create admit =
     app_post (limiter_limit admit (generate_inference_stream cfg create))"

section \<open>Notions the statements use\<close>

text \<open>A body is valid when validation yields a request.\<close>

definition is_valid :: "RequestBody \<Rightarrow> bool" where
  "is_valid b = (case validate_InferenceRequest b of Inl errors \<Rightarrow> False | Inr r \<Rightarrow> True)"

text \<open>
  The fragment of the specification: the text a chunk carries, which is the content of
  its first choice's delta, and the empty text when the chunk has no choice or the delta
  has no content.
\<close>

definition fragment_text :: "ChatCompletionChunk \<Rightarrow> string" where
  "fragment_text chunk =
     (case chunk_choices chunk of
        [] \<Rightarrow> []
      | c # cs \<Rightarrow> (case delta_content c of None \<Rightarrow> [] | Some text \<Rightarrow> text))"

section \<open>Concrete inputs\<close>

text \<open>
  The request and the upstream result of the specification's example, a state with
  counters already running, and upstream behaviours for each outcome.
\<close>

definition example_settings :: Settings where
  "example_settings = \<lparr>OPENAI_MODEL = ''gpt-3.5-turbo''\<rparr>"

definition example_world :: world where
  "example_world =
     \<lparr>metrics = \<lparr>total_requests = 5, successful_requests = 3, failed_requests = 1, total_tokens = 120\<rparr>,
      upstream_calls = []\<rparr>"

definition example_request :: InferenceRequest where
  "example_request =
     \<lparr>messages = [\<lparr>role = ''user'', content = ''hi''\<rparr>], max_tokens = Some 10,
      temperature = Some (7 / 10), stream = Some False\<rparr>"

definition streaming_request :: InferenceRequest where
  "streaming_request =
     \<lparr>messages = [\<lparr>role = ''user'', content = ''hi''\<rparr>], max_tokens = Some 10,
      temperature = Some (7 / 10), stream = Some True\<rparr>"

definition example_body :: RequestBody where
  "example_body =
     \<lparr>body_messages = Val [\<lparr>role = ''user'', content = ''hi''\<rparr>], body_max_tokens = Val 10,
      body_temperature = Val (7 / 10), body_stream = Val False\<rparr>"

definition empty_messages_body :: RequestBody where
  "empty_messages_body =
     \<lparr>body_messages = Val [], body_max_tokens = Absent, body_temperature = Absent, body_stream = Absent\<rparr>"

definition hot_body :: RequestBody where
  "hot_body =
     \<lparr>body_messages = Val [\<lparr>role = ''user'', content = ''hi''\<rparr>], body_max_tokens = Val 10,
      body_temperature = Val (5 / 2), body_stream = Val False\<rparr>"

definition example_completion :: ChatCompletion where
  "example_completion =
     \<lparr>cc_id = ''x1'', cc_model = ''m'',
      choices = [\<lparr>message_content = Some ''hello'', finish_reason = ''stop''\<rparr>],
      usage = Some \<lparr>prompt_tokens = 3, completion_tokens = 1, usage_total_tokens = 4\<rparr>\<rparr>"


definition example_api_error :: py_exception where
  "example_api_error = APIError ''Incorrect API key provided: sk-test''"

definition create_completes :: upstream_complete where
  "create_completes args = Inr example_completion"


definition create_rate_limited :: upstream_complete where
  "create_rate_limited args = Inl (RateLimitError ''Error code: 429 - quota exceeded'')"

definition create_refused :: upstream_complete where
  "create_refused args = Inl example_api_error"

definition text_chunk :: "string \<Rightarrow> ChatCompletionChunk" where
  "text_chunk text = \<lparr>chunk_choices = [\<lparr>delta_content = Some text\<rparr>]\<rparr>"

definition example_chunks :: "ChatCompletionChunk list" where
  "example_chunks =
     [text_chunk ''Hel'', \<lparr>chunk_choices = []\<rparr>, \<lparr>chunk_choices = [\<lparr>delta_content = None\<rparr>]\<rparr>,
      text_chunk [], text_chunk ''lo'']"

definition stream_completes :: upstream_streaming where
  "stream_completes args = Inr (example_chunks, None)"

definition stream_completes_empty :: upstream_streaming where
  "stream_completes_empty args = Inr ([], None)"

definition stream_breaks :: upstream_streaming where
  "stream_breaks args = Inr ([text_chunk ''Hel''], Some example_api_error)"


definition stream_rate_limited :: upstream_streaming where
  "stream_rate_limited args = Inl (RateLimitError ''Error code: 429 - quota exceeded'')"

definition stream_crashes :: upstream_streaming where
  "stream_crashes args =
     Inr ([text_chunk ''Hel'', text_chunk ''lo''], Some (OtherException ''Connection reset by peer''))"

section \<open>Basic facts\<close>

lemmas counter_defs = inc_total_def inc_successful_def inc_failed_def add_tokens_def record_call_def

lemmas blocking_defs = generate_inference_def generate_inference_try_def

lemmas streaming_defs = stream_openai_response_def stream_openai_response_try_def

lemmas route_defs = post_v1_inference_def post_v1_inference_stream_def app_post_def limiter_limit_def

lemma metrics_simps:
  "metrics (inc_total w) = (metrics w)\<lparr>total_requests := total_requests (metrics w) + 1\<rparr>"
  "metrics (inc_successful w) = (metrics w)\<lparr>successful_requests := successful_requests (metrics w) + 1\<rparr>"
  "metrics (inc_failed w) = (metrics w)\<lparr>failed_requests := failed_requests (metrics w) + 1\<rparr>"
  "metrics (add_tokens n w) = (metrics w)\<lparr>total_tokens := total_tokens (metrics w) + n\<rparr>"
  "metrics (record_call args w) = metrics w"
  by (simp_all add: counter_defs)

lemma calls_simps:
  "upstream_calls (inc_total w) = upstream_calls w"
  "upstream_calls (inc_successful w) = upstream_calls w"
  "upstream_calls (inc_failed w) = upstream_calls w"
  "upstream_calls (add_tokens n w) = upstream_calls w"
  "upstream_calls (record_call args w) = upstream_calls w @ [args]"
  by (simp_all add: counter_defs)

text \<open>The handler body of the blocking endpoint counts the request on every path.\<close>

lemma total_generate_inference:
  "total_requests (metrics (fst (generate_inference cfg create w req))) = total_requests (metrics w) + 1"
  by (simp add: blocking_defs Let_def metrics_simps
      split: sum.splits list.splits option.splits prod.splits)

text \<open>The generator never touches \<open>total_requests\<close>.\<close>

lemma total_stream_openai_response:
  "total_requests (metrics (fst (snd (stream_openai_response cfg create w req)))) = total_requests (metrics w)"
  by (simp add: streaming_defs Let_def metrics_simps split: sum.splits option.splits prod.splits)

lemma total_generate_inference_stream:
  "total_requests (metrics (fst (generate_inference_stream cfg create w req))) = total_requests (metrics w) + 1"
  using total_stream_openai_response [of cfg create "inc_total w" req]
  by (simp add: generate_inference_stream_def Let_def metrics_simps case_prod_beta)

text \<open>
  A completion without any choice makes \<^verbatim>\<open>response.choices[0]\<close> raise; the catch-all
  clause answers 500 and counts a failure.
\<close>

lemma generate_inference_no_choice:
  assumes "\<not> truthy_bool (stream req)"
    and "create (blocking_args cfg req) = Inr response"
    and "choices response = []"
  shows "snd (generate_inference cfg create w req) = Inl (HTTPException 500 ''Internal server error'')"
    and "failed_requests (metrics (fst (generate_inference cfg create w req))) = failed_requests (metrics w) + 1"
    and "successful_requests (metrics (fst (generate_inference cfg create w req))) = successful_requests (metrics w)"
  using assms by (simp_all add: blocking_defs Let_def metrics_simps)

text \<open>
  A completion whose first choice has no text, or that reports no usage, raises inside
  the \<^verbatim>\<open>try\<close> block after \<^verbatim>\<open>successful_requests\<close> was bumped: the catch-all clause
  then answers 500 and bumps \<^verbatim>\<open>failed_requests\<close> as well.
\<close>

lemma generate_inference_no_text:
  assumes "\<not> truthy_bool (stream req)"
    and "create (blocking_args cfg req) = Inr response"
    and "choices response = completion # rest"
    and "usage response = None \<or> message_content completion = None"
  shows "snd (generate_inference cfg create w req) = Inl (HTTPException 500 ''Internal server error'')"
    and "failed_requests (metrics (fst (generate_inference cfg create w req))) = failed_requests (metrics w) + 1"
    and "successful_requests (metrics (fst (generate_inference cfg create w req)))
           = successful_requests (metrics w) + 1"
  using assms by (auto simp add: blocking_defs Let_def metrics_simps split: option.splits)

text \<open>
  The loop of the relay: one event per fragment with non-empty text, in the order of
  arrival, each the text between the marker and two line feeds.
\<close>

lemma relay_chunks_events:
  "relay_chunks chunks =
     map (\<lambda>text. ''data: '' @ text @ ''\<newline>\<newline>'')
       (filter (\<lambda>text. text \<noteq> []) (map fragment_text chunks))"
proof (induction chunks)
  case Nil
  show ?case by simp
next
  case (Cons chunk rest)
  then show ?case
    by (simp add: fragment_text_def split: list.splits option.splits)
qed

text \<open>A temperature outside the closed range fails validation of the whole body.\<close>

lemma validate_temperature_out_of_range:
  assumes "t < 0 \<or> 2 < t"
  shows "\<exists>e. validate_temperature (Val t) = Inl e"
  using assms by auto

lemma validate_out_of_range:
  assumes "body_temperature b = Val t" and "t < 0 \<or> 2 < t"
  shows "\<exists>errors. validate_InferenceRequest b = Inl errors"
proof -
  obtain e where e: "validate_temperature (body_temperature b) = Inl e"
    using assms validate_temperature_out_of_range by fastforce
  show ?thesis
    by (cases "validate_messages (body_messages b)") (simp_all add: validate_InferenceRequest_def e)
qed

section \<open>Admission and the request counter\<close>

text \<open>
  Claim C1 as stated fails: a valid request that the rate limiter rejects on the
  blocking endpoint is answered \<open>RateLimitExceeded\<close> before the handler body runs, so
  \<open>total_requests\<close> keeps its value instead of growing by one.
\<close>

theorem rate_limited_request_not_counted:
  "snd (post_v1_inference example_settings create_completes False example_world example_body)
     = Inl RateLimitExceeded
   \<and> total_requests (metrics (fst (post_v1_inference example_settings create_completes False
                                     example_world example_body)))
     \<noteq> total_requests (metrics example_world) + 1"
  by (simp add: route_defs validate_InferenceRequest_def example_body_def example_world_def)

text \<open>
  Claim C1, amended: on both endpoints \<open>total_requests\<close> grows by exactly one for every
  request that passes validation and is admitted by the rate limiter, whatever the
  upstream then does, and by nothing otherwise; a request the rate limiter rejects
  leaves the whole state as it was, so it changes neither \<open>total_requests\<close> nor
  \<open>successful_requests\<close> nor \<open>failed_requests\<close>.
\<close>

theorem total_requests_counts_admitted:
  "total_requests (metrics (fst (post_v1_inference cfg create admit w b)))
     = total_requests (metrics w) + (if admit \<and> is_valid b then 1 else 0)
   \<and> total_requests (metrics (fst (post_v1_inference_stream cfg create' admit w b)))
     = total_requests (metrics w) + (if admit \<and> is_valid b then 1 else 0)
   \<and> fst (post_v1_inference cfg create False w b) = w
   \<and> fst (post_v1_inference_stream cfg create' False w b) = w"
  by (simp add: route_defs is_valid_def total_generate_inference total_generate_inference_stream
      split: sum.splits)

theorem total_requests_counts_admitted_witness:
  "total_requests (metrics (fst (post_v1_inference example_settings create_refused True example_world example_body))) = 6
   \<and> total_requests (metrics (fst (post_v1_inference_stream example_settings stream_breaks True example_world example_body))) = 6
   \<and> fst (post_v1_inference example_settings create_refused False example_world example_body) = example_world
   \<and> fst (post_v1_inference_stream example_settings stream_breaks False example_world example_body) = example_world"
  using total_requests_counts_admitted [of example_settings create_refused True example_world
      example_body stream_breaks]
    total_requests_counts_admitted [of example_settings create_refused False example_world
      example_body stream_breaks]
  by (simp add: is_valid_def validate_InferenceRequest_def example_body_def example_world_def)

section \<open>The blocking path\<close>




text \<open>
  Claim C3 as stated fails: when the upstream raises its rate-limit error, the status
  the caller gets is 429, which is not the bad-gateway status 502 and is the same
  status as the one answered to a request the local rate limiter rejects.
\<close>

theorem upstream_rate_limit_answered_429:
  "snd (generate_inference example_settings create_rate_limited example_world example_request)
     = Inl (HTTPException 429 ''Rate limit exceeded at OpenAI'')
   \<and> status_code (HTTPException 429 ''Rate limit exceeded at OpenAI'') \<noteq> 502
   \<and> snd (limiter_limit False (generate_inference example_settings create_rate_limited)
            example_world example_request) = Inl RateLimitExceeded
   \<and> status_code (HTTPException 429 ''Rate limit exceeded at OpenAI'') = status_code RateLimitExceeded"
  by (simp add: blocking_defs Let_def limiter_limit_def example_request_def create_rate_limited_def)

text \<open>
  Claim C3, amended: when a request with a stream flag that is not set reaches the
  blocking handler and the upstream raises its rate-limit error, the caller receives
  status 429 with the detail "Rate limit exceeded at OpenAI", the same status code as
  a local rate-limit rejection and told apart from it by the message only;
  \<open>failed_requests\<close> grows by one and \<open>successful_requests\<close> stays.
\<close>

theorem upstream_rate_limit_status_and_counter:
  assumes "\<not> truthy_bool (stream req)"
    and "create (blocking_args cfg req) = Inl (RateLimitError m)"
  shows "snd (generate_inference cfg create w req)
           = Inl (HTTPException 429 ''Rate limit exceeded at OpenAI'')
         \<and> status_code (HTTPException 429 ''Rate limit exceeded at OpenAI'')
           = status_code RateLimitExceeded
         \<and> failed_requests (metrics (fst (generate_inference cfg create w req)))
           = failed_requests (metrics w) + 1
         \<and> successful_requests (metrics (fst (generate_inference cfg create w req)))
           = successful_requests (metrics w)"
  using assms by (simp add: blocking_defs Let_def metrics_simps)

theorem upstream_rate_limit_status_and_counter_witness:
  "\<not> truthy_bool (stream example_request)
   \<and> create_rate_limited (blocking_args example_settings example_request)
       = Inl (RateLimitError ''Error code: 429 - quota exceeded'')
   \<and> snd (generate_inference example_settings create_rate_limited example_world example_request)
       = Inl (HTTPException 429 ''Rate limit exceeded at OpenAI'')
   \<and> failed_requests (metrics (fst (generate_inference example_settings create_rate_limited
                                      example_world example_request))) = 2
   \<and> successful_requests (metrics (fst (generate_inference example_settings create_rate_limited
                                          example_world example_request))) = 3"
  using upstream_rate_limit_status_and_counter
    [where req = example_request and create = create_rate_limited and cfg = example_settings
      and m = "''Error code: 429 - quota exceeded''" and w = example_world]
  by (simp add: example_request_def create_rate_limited_def example_world_def)

text \<open>
  Claim C8: a request with the stream flag set that reaches the blocking handler, that
  is, one the rate limiter admits, is answered with the client error 400 whose message
  directs to the streaming endpoint; the upstream is not called, and
  \<open>successful_requests\<close> and \<open>failed_requests\<close> keep their values. Whatever the rate
  limiter decides, the upstream is not called.
\<close>

theorem blocking_rejects_stream_flag:
  assumes "stream req = Some True"
  shows "generate_inference cfg create w req =
           (inc_total w, Inl (HTTPException 400 ''For streaming responses, use POST /v1/inference/stream''))
         \<and> upstream_calls (fst (generate_inference cfg create w req)) = upstream_calls w
         \<and> successful_requests (metrics (fst (generate_inference cfg create w req)))
           = successful_requests (metrics w)
         \<and> failed_requests (metrics (fst (generate_inference cfg create w req)))
           = failed_requests (metrics w)
         \<and> snd (limiter_limit True (generate_inference cfg create) w req)
           = Inl (HTTPException 400 ''For streaming responses, use POST /v1/inference/stream'')
         \<and> upstream_calls (fst (limiter_limit admit (generate_inference cfg create) w req))
           = upstream_calls w"
  using assms by (simp add: generate_inference_def Let_def limiter_limit_def metrics_simps calls_simps)

theorem blocking_rejects_stream_flag_witness:
  "stream streaming_request = Some True
   \<and> snd (generate_inference example_settings create_completes example_world streaming_request)
       = Inl (HTTPException 400 ''For streaming responses, use POST /v1/inference/stream'')
   \<and> upstream_calls (fst (generate_inference example_settings create_completes example_world
                             streaming_request)) = []
   \<and> successful_requests (metrics (fst (generate_inference example_settings create_completes
                                          example_world streaming_request))) = 3
   \<and> failed_requests (metrics (fst (generate_inference example_settings create_completes
                                      example_world streaming_request))) = 1"
proof -
  have flag: "stream streaming_request = Some True"
    by (simp add: streaming_request_def)
  show ?thesis
    using flag blocking_rejects_stream_flag
      [where req = streaming_request and cfg = example_settings and create = create_completes
        and w = example_world and admit = True, OF flag]
    by (simp add: example_world_def metrics_simps calls_simps)
qed

section \<open>Validation\<close>

text \<open>
  Claim C4 as stated fails: a body whose message list is empty passes validation, and
  both endpoints then call the upstream with an empty message list.
\<close>

theorem empty_messages_dispatched:
  "validate_InferenceRequest empty_messages_body =
     Inr \<lparr>messages = [], max_tokens = Some 500, temperature = Some (7 / 10), stream = Some False\<rparr>
   \<and> upstream_calls (fst (post_v1_inference example_settings create_completes True
                             example_world empty_messages_body)) =
     [\<lparr>arg_model = ''gpt-3.5-turbo'', arg_messages = [], arg_max_tokens = Some 500,
       arg_temperature = Some (7 / 10), arg_stream = False\<rparr>]
   \<and> upstream_calls (fst (post_v1_inference_stream example_settings stream_completes True
                             example_world empty_messages_body)) =
     [\<lparr>arg_model = ''gpt-3.5-turbo'', arg_messages = [], arg_max_tokens = Some 500,
       arg_temperature = Some (7 / 10), arg_stream = True\<rparr>]"
  by (simp add: route_defs validate_InferenceRequest_def blocking_defs
      generate_inference_stream_def streaming_defs blocking_args_def streaming_args_def
      Let_def calls_simps empty_messages_body_def example_settings_def example_world_def
      create_completes_def example_completion_def stream_completes_def)

text \<open>
  Claim C4, amended: every inbound request whose temperature lies outside the closed
  range from 0.0 to 2.0 is rejected by validation on both endpoints, whatever the rate
  limiter would decide, and the state is left as it was: the upstream is not called
  and no counter moves. The message list carries no length bound: an empty list is
  accepted.
\<close>

theorem out_of_range_temperature_rejected:
  assumes "body_temperature b = Val t" and "t < 0 \<or> 2 < t"
  shows "(\<exists>errors.
            post_v1_inference cfg create admit w b = (w, Inl (RequestValidationError errors))
            \<and> post_v1_inference_stream cfg create' admit' w b
                = (w, Inl (RequestValidationError errors)))
         \<and> validate_messages (Val []) = Inr []"
proof -
  obtain errors where "validate_InferenceRequest b = Inl errors"
    using validate_out_of_range [OF assms] by blast
  then show ?thesis
    by (simp add: post_v1_inference_def post_v1_inference_stream_def app_post_def)
qed

theorem out_of_range_temperature_rejected_witness:
  "body_temperature hot_body = Val (5 / 2) \<and> ((5 / 2 :: real) < 0 \<or> 2 < (5 / 2 :: real))
   \<and> (\<exists>errors.
         post_v1_inference example_settings create_completes True example_world hot_body
           = (example_world, Inl (RequestValidationError errors))
         \<and> post_v1_inference_stream example_settings stream_completes True example_world hot_body
           = (example_world, Inl (RequestValidationError errors)))"
  using out_of_range_temperature_rejected
    [where b = hot_body and t = "5 / 2" and cfg = example_settings and create = create_completes
      and create' = stream_completes and admit = True and admit' = True and w = example_world]
  by (simp add: hot_body_def)

section \<open>The streaming relay\<close>

text \<open>
  Claim C5: when the stream fails with an upstream error, either when it is opened or
  after it delivered some chunks (which gave \<open>k \<ge> 0\<close> content events), the relay emits
  those content events and then exactly one error event, which is the last event of the
  sequence: the marker "data: [ERROR] " followed by the description for the class of
  the error and two line feeds, which is never the done event. The generator returns
  instead of raising, \<open>failed_requests\<close> grows by exactly one and
  \<open>successful_requests\<close> stays.
\<close>

theorem stream_failure_single_error_event:
  assumes "create (streaming_args cfg req) = Inr (chunks, Some e)
           \<or> (create (streaming_args cfg req) = Inl e \<and> chunks = [])"
  shows "fst (stream_openai_response cfg create w req) =
           map (\<lambda>text. ''data: '' @ text @ ''\<newline>\<newline>'')
             (filter (\<lambda>text. text \<noteq> []) (map fragment_text chunks))
           @ [case e of
                RateLimitError m \<Rightarrow> ''data: [ERROR] Rate limit exceeded\<newline>\<newline>''
              | APIError m \<Rightarrow> ''data: [ERROR] LLM service error: '' @ m @ ''\<newline>\<newline>''
              | OtherException m \<Rightarrow> ''data: [ERROR] Internal server error\<newline>\<newline>'']
         \<and> take 14 (last (fst (stream_openai_response cfg create w req))) = ''data: [ERROR] ''
         \<and> last (fst (stream_openai_response cfg create w req)) \<noteq> ''data: [DONE]\<newline>\<newline>''
         \<and> snd (snd (stream_openai_response cfg create w req)) = Returned
         \<and> failed_requests (metrics (fst (snd (stream_openai_response cfg create w req))))
             = failed_requests (metrics w) + 1
         \<and> successful_requests (metrics (fst (snd (stream_openai_response cfg create w req))))
             = successful_requests (metrics w)"
proof -
  have run: "stream_openai_response cfg create w req =
               (relay_chunks chunks @ [stream_except e],
                inc_failed (record_call (streaming_args cfg req) w), Returned)"
    using assms by (auto simp add: streaming_defs Let_def)
  show ?thesis
    by (cases e) (simp_all add: run relay_chunks_events metrics_simps)
qed

theorem stream_failure_single_error_event_witness:
  "fst (stream_openai_response example_settings stream_breaks example_world example_request)
     = [''data: Hel\<newline>\<newline>'',
        ''data: [ERROR] LLM service error: Incorrect API key provided: sk-test\<newline>\<newline>'']
   \<and> fst (stream_openai_response example_settings stream_rate_limited example_world example_request)
     = [''data: [ERROR] Rate limit exceeded\<newline>\<newline>'']
   \<and> fst (stream_openai_response example_settings stream_crashes example_world example_request)
     = [''data: Hel\<newline>\<newline>'', ''data: lo\<newline>\<newline>'',
        ''data: [ERROR] Internal server error\<newline>\<newline>'']
   \<and> snd (snd (stream_openai_response example_settings stream_breaks example_world example_request))
     = Returned
   \<and> failed_requests (metrics (fst (snd (stream_openai_response example_settings stream_breaks
                                           example_world example_request)))) = 2
   \<and> failed_requests (metrics (fst (snd (stream_openai_response example_settings stream_rate_limited
                                           example_world example_request)))) = 2
   \<and> failed_requests (metrics (fst (snd (stream_openai_response example_settings stream_crashes
                                           example_world example_request)))) = 2
   \<and> successful_requests (metrics (fst (snd (stream_openai_response example_settings stream_breaks
                                               example_world example_request)))) = 3"
proof -
  have breaks: "stream_breaks (streaming_args example_settings example_request)
                  = Inr ([text_chunk ''Hel''], Some (APIError ''Incorrect API key provided: sk-test''))
                \<or> (stream_breaks (streaming_args example_settings example_request)
                      = Inl (APIError ''Incorrect API key provided: sk-test'')
                   \<and> [text_chunk ''Hel''] = [])"
    by (simp add: stream_breaks_def example_api_error_def)
  have limited: "stream_rate_limited (streaming_args example_settings example_request)
                   = Inr ([], Some (RateLimitError ''Error code: 429 - quota exceeded''))
                 \<or> (stream_rate_limited (streaming_args example_settings example_request)
                       = Inl (RateLimitError ''Error code: 429 - quota exceeded'')
                    \<and> ([] :: ChatCompletionChunk list) = [])"
    by (simp add: stream_rate_limited_def)
  have crashes: "stream_crashes (streaming_args example_settings example_request)
                   = Inr ([text_chunk ''Hel'', text_chunk ''lo''],
                          Some (OtherException ''Connection reset by peer''))
                 \<or> (stream_crashes (streaming_args example_settings example_request)
                       = Inl (OtherException ''Connection reset by peer'')
                    \<and> [text_chunk ''Hel'', text_chunk ''lo''] = [])"
    by (simp add: stream_crashes_def)
  note first = stream_failure_single_error_event
    [where create = stream_breaks and cfg = example_settings and req = example_request
      and chunks = "[text_chunk ''Hel'']" and e = "APIError ''Incorrect API key provided: sk-test''"
      and w = example_world, OF breaks]
  note second = stream_failure_single_error_event
    [where create = stream_rate_limited and cfg = example_settings and req = example_request
      and chunks = "[]" and e = "RateLimitError ''Error code: 429 - quota exceeded''"
      and w = example_world, OF limited]
  note third = stream_failure_single_error_event
    [where create = stream_crashes and cfg = example_settings and req = example_request
      and chunks = "[text_chunk ''Hel'', text_chunk ''lo'']"
      and e = "OtherException ''Connection reset by peer''" and w = example_world, OF crashes]
  have texts: "fragment_text (text_chunk ''Hel'') = ''Hel''"
    "fragment_text (text_chunk ''lo'') = ''lo''"
    by (simp_all add: text_chunk_def fragment_text_def)
  have counters: "failed_requests (metrics example_world) = 1"
    "successful_requests (metrics example_world) = 3"
    by (simp_all add: example_world_def)
  from first second third show ?thesis
    by (simp add: texts counters)
qed

text \<open>
  Claim C6: when the stream ends naturally, the relay emits the content events and
  then exactly one done event, the text "data: [DONE]" with two line feeds, which is the
  last event of the sequence, also when no content event was emitted at all;
  \<open>successful_requests\<close> grows by exactly one over the whole run and \<open>failed_requests\<close>
  stays. The loop over the chunks does not touch the counters: \<open>relay_chunks\<close> has no
  access to the state.
\<close>

theorem stream_completion_single_done_event:
  assumes "create (streaming_args cfg req) = Inr (chunks, None)"
  shows "fst (stream_openai_response cfg create w req) =
           map (\<lambda>text. ''data: '' @ text @ ''\<newline>\<newline>'')
             (filter (\<lambda>text. text \<noteq> []) (map fragment_text chunks))
           @ [''data: [DONE]\<newline>\<newline>'']
         \<and> last (fst (stream_openai_response cfg create w req)) = ''data: [DONE]\<newline>\<newline>''
         \<and> snd (snd (stream_openai_response cfg create w req)) = Returned
         \<and> successful_requests (metrics (fst (snd (stream_openai_response cfg create w req))))
             = successful_requests (metrics w) + 1
         \<and> failed_requests (metrics (fst (snd (stream_openai_response cfg create w req))))
             = failed_requests (metrics w)"
  using assms by (simp add: streaming_defs Let_def metrics_simps relay_chunks_events)

theorem stream_completion_single_done_event_witness:
  "stream_completes_empty (streaming_args example_settings example_request) = Inr ([], None)
   \<and> fst (stream_openai_response example_settings stream_completes_empty example_world example_request)
     = [''data: [DONE]\<newline>\<newline>'']
   \<and> successful_requests (metrics (fst (snd (stream_openai_response example_settings
         stream_completes_empty example_world example_request)))) = 4
   \<and> failed_requests (metrics (fst (snd (stream_openai_response example_settings
         stream_completes_empty example_world example_request)))) = 1"
proof -
  have ends: "stream_completes_empty (streaming_args example_settings example_request) = Inr ([], None)"
    by (simp add: stream_completes_empty_def)
  from stream_completion_single_done_event
    [where create = stream_completes_empty and cfg = example_settings and req = example_request
      and chunks = "[]" and w = example_world, OF ends]
    ends
  show ?thesis
    by (simp add: example_world_def)
qed

text \<open>
  Claim C7: for every sequence of chunks the upstream delivers, the events of the relay
  are one event per fragment with non-empty text, which is that text unchanged between
  the marker "data: " and two line feeds, in the order the fragments arrived, followed
  by one more event only, the terminal one; a fragment with empty text gives no event.
\<close>

theorem relay_emits_nonempty_fragments_in_order:
  assumes "create (streaming_args cfg req) = Inr (chunks, ending)"
  shows "butlast (fst (stream_openai_response cfg create w req))
           = map (\<lambda>text. ''data: '' @ text @ ''\<newline>\<newline>'')
               (filter (\<lambda>text. text \<noteq> []) (map fragment_text chunks))
         \<and> length (fst (stream_openai_response cfg create w req))
           = length (filter (\<lambda>text. text \<noteq> []) (map fragment_text chunks)) + 1"
  using assms
  by (cases ending) (simp_all add: streaming_defs Let_def relay_chunks_events)

theorem relay_emits_nonempty_fragments_in_order_witness:
  "stream_completes (streaming_args example_settings example_request) = Inr (example_chunks, None)
   \<and> map fragment_text example_chunks = [''Hel'', [], [], [], ''lo'']
   \<and> butlast (fst (stream_openai_response example_settings stream_completes example_world
                     example_request))
     = [''data: Hel\<newline>\<newline>'', ''data: lo\<newline>\<newline>'']
   \<and> length (fst (stream_openai_response example_settings stream_completes example_world
                    example_request)) = 3"
proof -
  have delivers: "stream_completes (streaming_args example_settings example_request)
                    = Inr (example_chunks, None)"
    by (simp add: stream_completes_def)
  have texts: "map fragment_text example_chunks = [''Hel'', [], [], [], ''lo'']"
    by (simp add: example_chunks_def text_chunk_def fragment_text_def)
  from relay_emits_nonempty_fragments_in_order
    [where create = stream_completes and cfg = example_settings and req = example_request
      and chunks = example_chunks and ending = None and w = example_world, OF delivers]
    delivers texts
  show ?thesis
    by simp
qed

text \<open>
  Claim C10: the streaming endpoint does not read the stream flag. For every valid body
  the rate limiter admits, whatever its flag, the handler runs; its result is the same
  for every value of the flag; the one upstream call it makes is opened in streaming
  mode; and the response body is the event sequence of the relay.
\<close>

theorem streaming_endpoint_ignores_stream_flag:
  assumes "validate_InferenceRequest b = Inr req"
  shows "post_v1_inference_stream cfg create True w b = generate_inference_stream cfg create w req
         \<and> generate_inference_stream cfg create w (req\<lparr>stream := flag\<rparr>)
             = generate_inference_stream cfg create w req
         \<and> upstream_calls (fst (post_v1_inference_stream cfg create True w b))
             = upstream_calls w @ [streaming_args cfg req]
         \<and> arg_stream (streaming_args cfg req)
         \<and> snd (post_v1_inference_stream cfg create True w b)
             = Inr \<lparr>body_iterator = fst (stream_openai_response cfg create (inc_total w) req),
                    media_type = ''text/event-stream'',
                    headers = [(''Cache-Control'', ''no-cache''), (''Connection'', ''keep-alive'')]\<rparr>"
  using assms
  by (simp add: route_defs generate_inference_stream_def streaming_defs streaming_args_def
      Let_def calls_simps case_prod_beta split: sum.splits option.splits prod.splits)

theorem streaming_endpoint_ignores_stream_flag_witness:
  "validate_InferenceRequest example_body = Inr example_request
   \<and> stream example_request = Some False
   \<and> upstream_calls (fst (post_v1_inference_stream example_settings stream_completes True
                             example_world example_body))
       = [\<lparr>arg_model = ''gpt-3.5-turbo'',
           arg_messages = [[(''role'', ''user''), (''content'', ''hi'')]],
           arg_max_tokens = Some 10, arg_temperature = Some (7 / 10), arg_stream = True\<rparr>]
   \<and> snd (post_v1_inference_stream example_settings stream_completes True example_world example_body)
       = Inr \<lparr>body_iterator = [''data: Hel\<newline>\<newline>'', ''data: lo\<newline>\<newline>'', ''data: [DONE]\<newline>\<newline>''],
              media_type = ''text/event-stream'',
              headers = [(''Cache-Control'', ''no-cache''), (''Connection'', ''keep-alive'')]\<rparr>"
proof -
  have valid: "validate_InferenceRequest example_body = Inr example_request"
    by (simp add: validate_InferenceRequest_def example_body_def example_request_def)
  have events: "fst (stream_openai_response example_settings stream_completes (inc_total example_world)
                      example_request) = [''data: Hel\<newline>\<newline>'', ''data: lo\<newline>\<newline>'', ''data: [DONE]\<newline>\<newline>'']"
    by (simp add: streaming_defs Let_def stream_completes_def example_chunks_def text_chunk_def)
  note run = streaming_endpoint_ignores_stream_flag
    [where b = example_body and req = example_request and cfg = example_settings
      and create = stream_completes and w = example_world and flag = "Some True", OF valid]
  have calls: "upstream_calls (fst (post_v1_inference_stream example_settings stream_completes True
                                      example_world example_body))
                 = upstream_calls example_world @ [streaming_args example_settings example_request]"
    using run by blast
  have response: "snd (post_v1_inference_stream example_settings stream_completes True
                         example_world example_body)
                    = Inr \<lparr>body_iterator = fst (stream_openai_response example_settings stream_completes
                                                   (inc_total example_world) example_request),
                           media_type = ''text/event-stream'',
                           headers = [(''Cache-Control'', ''no-cache''), (''Connection'', ''keep-alive'')]\<rparr>"
    using run by blast
  have args: "upstream_calls example_world @ [streaming_args example_settings example_request]
                = [\<lparr>arg_model = ''gpt-3.5-turbo'',
                    arg_messages = [[(''role'', ''user''), (''content'', ''hi'')]],
                    arg_max_tokens = Some 10, arg_temperature = Some (7 / 10), arg_stream = True\<rparr>]"
    by (simp add: streaming_args_def example_request_def example_settings_def example_world_def
        model_dump_def)
  have flag: "stream example_request = Some False"
    by (simp add: example_request_def)
  show ?thesis
    by (simp only: valid flag calls args response events simp_thms)
qed

section \<open>What the caller reads on failure\<close>




end
